theory Spec2Isabelle
  imports Complex_Main
begin

section \<open>The persistent store\<close>

text \<open>
  An address as the JSON documents carry it: \<open>text\<close> is a string, \<open>lat\<close>, \<open>lon\<close> and
  \<open>instructions\<close> are optional (\<open>None\<close> is JavaScript's \<open>undefined\<close>, a key that is
  absent). Coordinates are numbers that the code only stores and tests for truthiness, never
  computes with; they are taken as reals. Strings are lists of 8-bit characters.
\<close>

record address =
  atext :: string
  lat :: "real option"
  lon :: "real option"
  instructions :: "string option"

text \<open>
  The stored credential is a string. \<open>bcrypt\<close> is an external library and is modelled
  symbolically: a hash remembers the salt it was made with and the part of the password it
  was made from. The library uses the first 72 bytes of a password and ignores the rest,
  in hashing and in verifying. A stored string that is not a bcrypt hash verifies nothing.
\<close>

datatype stored_password = Plaintext string | BcryptHash nat string

fun bcrypt_compare :: "string \<Rightarrow> stored_password \<Rightarrow> bool" where
  "bcrypt_compare p (BcryptHash s q) = (take 72 p = q)"
| "bcrypt_compare p (Plaintext q) = False"

definition bcrypt_hash :: "nat \<Rightarrow> string \<Rightarrow> stored_password" where
  "bcrypt_hash s p = BcryptHash s (take 72 p)"

record doc =
  addresses :: "address list"
  rules :: string
  adminPassword :: stored_password

text \<open>
  The server's state: \<open>db.data\<close> (the document in memory), the file \<open>db.json\<close> that
  \<open>db.write()\<close> rewrites wholesale from it, and the flag \<open>req.session.user\<close> of the
  client's session.
\<close>

record server =
  db_data :: doc
  db_file :: doc
  session_user :: bool

definition db_write :: "server \<Rightarrow> server" where
  "db_write s = s\<lparr>db_file := db_data s\<rparr>"

text \<open>
  The effects a handler has on the world outside the state, in the order they happen.
  Console output is left out.
\<close>

datatype event = Fetch string | Delay nat | DbWrite | BcryptCompare string | BcryptHashing string

section \<open>JavaScript truthiness\<close>

definition truthy_str :: "string \<Rightarrow> bool" where
  "truthy_str s = (s \<noteq> [])"

definition truthy_num :: "real option \<Rightarrow> bool" where
  "truthy_num v = (case v of None \<Rightarrow> False | Some x \<Rightarrow> x \<noteq> 0)"

section \<open>Geocode on save (POST /api/addresses)\<close>

text \<open>
  What one lookup gives back: \<open>GeoThrows\<close> when \<open>fetch\<close> or \<open>json()\<close> rejects (network
  error, a body that is not JSON), \<open>GeoData\<close> with the matches otherwise, each already
  through \<open>parseFloat\<close>. The geocoding service is an input of the model: the k-th lookup of
  a batch answers \<open>geo k\<close>.
\<close>

datatype geo_outcome = GeoThrows | GeoData "(real \<times> real) list"

definition needs_geocode :: "address \<Rightarrow> bool" where
  "needs_geocode a = (truthy_str (atext a) \<and> (\<not> truthy_num (lat a) \<or> \<not> truthy_num (lon a)))"

text \<open>
  The body of the \<open>try\<close>: the delay is awaited inside it, after the response has been read,
  so a lookup that throws goes to the \<open>catch\<close> without it.
\<close>

fun geocode_one :: "geo_outcome \<Rightarrow> address \<Rightarrow> address \<times> event list" where
  "geocode_one GeoThrows a = (a, [Fetch (atext a)])"
| "geocode_one (GeoData []) a = (a, [Fetch (atext a), Delay 1000])"
| "geocode_one (GeoData ((la, lo) # ms)) a =
     (a\<lparr>lat := Some la, lon := Some lo\<rparr>, [Fetch (atext a), Delay 1000])"

fun geocode_loop :: "(nat \<Rightarrow> geo_outcome) \<Rightarrow> nat \<Rightarrow> address list \<Rightarrow> address list \<times> event list" where
  "geocode_loop geo n [] = ([], [])"
| "geocode_loop geo n (a # as) =
     (if needs_geocode a then
        (let (a', ev) = geocode_one (geo n) a;
             (as', evs) = geocode_loop geo (Suc n) as
         in (a' # as', ev @ evs))
      else
        (let (as', evs) = geocode_loop geo n as
         in (a # as', evs)))"

section \<open>The handlers\<close>

text \<open>
  The repository holds the server twice: \<open>src/server.js\<close>, and
  \<open>src/unnamed/part_000\<close>, which adds the session, the rate limiter and the
  \<open>isAuthenticated\<close> gate. The handler bodies are the same but for a message and for the
  line that sets the session flag.
\<close>

datatype server_file = Server_js | Part_000

text \<open>
  The passwords and the user name of a request are strings. \<open>db.write()\<close> is taken to
  succeed.

  A response: \<open>PayloadTooLarge\<close> is the status 413 with which Express answers a body that
  the body parser refuses; \<open>Unanswered\<close> is a handler that threw: it sent no response of
  its own.
\<close>

datatype response =
    Json nat bool string
  | JsonAddresses "address list"
  | JsonRules string
  | Redirect string
  | Send nat string
  | SendFile string
  | NotFound
  | PayloadTooLarge
  | Unanswered

datatype rules_field = NotString | RulesString string

text \<open>
  The \<open>addresses\<close> of a body: not an array; an array of address objects; or an array that
  holds a \<open>null\<close>, given by the address objects that stand before its first \<open>null\<close>
  (the loop never reads what follows it). An element that is a number, a string or a
  boolean does not throw; it reads as an object without \<open>text\<close> and has no form of its
  own here.
\<close>

datatype addresses_field = NotArray | Array "address list" | NullAfter "address list"

definition invalid_rules :: "server_file \<Rightarrow> string" where
  "invalid_rules f = (case f of
       Server_js \<Rightarrow> ''Invalid data format. Expected a string for rules.''
     | Part_000 \<Rightarrow> ''Invalid data format.'')"

definition invalid_addresses :: "server_file \<Rightarrow> string" where
  "invalid_addresses f = (case f of
       Server_js \<Rightarrow> ''Invalid data format. Expected an array of addresses.''
     | Part_000 \<Rightarrow> ''Invalid data format.'')"

definition get_addresses :: "server \<Rightarrow> response \<times> server \<times> event list" where
  "get_addresses s = (JsonAddresses (addresses (db_data s)), s, [])"

definition get_rules :: "server \<Rightarrow> response \<times> server \<times> event list" where
  "get_rules s = (JsonRules (rules (db_data s)), s, [])"

definition post_rules :: "server_file \<Rightarrow> rules_field \<Rightarrow> server \<Rightarrow> response \<times> server \<times> event list" where
  "post_rules f field s = (case field of
       RulesString r \<Rightarrow>
         (Json 200 True ''Rules updated successfully.'',
          db_write (s\<lparr>db_data := (db_data s)\<lparr>rules := r\<rparr>\<rparr>), [DbWrite])
     | NotString \<Rightarrow> (Json 400 False (invalid_rules f), s, []))"

text \<open>
  The condition \<open>address.text && \<dots>\<close> is read outside the \<open>try\<close>: at a \<open>null\<close> element
  it throws a TypeError that nothing catches, after the lookups of the elements before it;
  the assignment to \<open>db.data.addresses\<close> and the write are not reached.
\<close>

definition post_addresses ::
  "server_file \<Rightarrow> (nat \<Rightarrow> geo_outcome) \<Rightarrow> addresses_field \<Rightarrow> server \<Rightarrow> response \<times> server \<times> event list" where
  "post_addresses f geo field s = (case field of
       Array addrs \<Rightarrow>
         (let (addrs', evs) = geocode_loop geo 0 addrs
          in (Json 200 True ''Addresses updated successfully.'',
              db_write (s\<lparr>db_data := (db_data s)\<lparr>addresses := addrs'\<rparr>\<rparr>), evs @ [DbWrite]))
     | NullAfter addrs \<Rightarrow>
         (let (addrs', evs) = geocode_loop geo 0 addrs
          in (Unanswered, s, evs))
     | NotArray \<Rightarrow> (Json 400 False (invalid_addresses f), s, []))"

definition signin ::
  "server_file \<Rightarrow> string option \<Rightarrow> string \<Rightarrow> string \<Rightarrow> server \<Rightarrow> response \<times> server \<times> event list" where
  "signin f admin_username username password s =
     (let isUsernameCorrect = (admin_username = Some username);
          (isPasswordCorrect, evs) =
             (if isUsernameCorrect
              then (bcrypt_compare password (adminPassword (db_data s)), [BcryptCompare password])
              else (False, []))
      in if isUsernameCorrect \<and> isPasswordCorrect
         then (Redirect ''/admin.html'',
               (case f of Part_000 \<Rightarrow> s\<lparr>session_user := True\<rparr> | Server_js \<Rightarrow> s), evs)
         else (Send 401 ''Authentication Failed. <a href=\"/signin.html\">Try again</a>'', s, evs))"

definition signout :: "bool \<Rightarrow> server \<Rightarrow> response \<times> server \<times> event list" where
  "signout err s =
     (if err then (Json 500 False ''Could not sign out.'', s, [])
      else (Json 200 True ''Signed out successfully.'', s\<lparr>session_user := False\<rparr>, []))"

definition change_password ::
  "nat \<Rightarrow> string \<Rightarrow> string \<Rightarrow> server \<Rightarrow> response \<times> server \<times> event list" where
  "change_password salt currentPassword newPassword s =
     (if \<not> truthy_str currentPassword \<or> \<not> truthy_str newPassword
      then (Json 400 False ''Current and new passwords are required.'', s, [])
      else if length newPassword < 8
      then (Json 400 False ''New password must be at least 8 characters long.'', s, [])
      else if \<not> bcrypt_compare currentPassword (adminPassword (db_data s))
      then (Json 401 False ''Incorrect current password.'', s, [BcryptCompare currentPassword])
      else (Json 200 True ''Password updated successfully.'',
            db_write (s\<lparr>db_data := (db_data s)\<lparr>adminPassword := bcrypt_hash salt newPassword\<rparr>\<rparr>),
            [BcryptCompare currentPassword, BcryptHashing newPassword, DbWrite]))"

section \<open>Middleware and routes\<close>

definition startsWith :: "string \<Rightarrow> string \<Rightarrow> bool" where
  "startsWith s p = (take (length p) s = p)"

text \<open>
  \<open>isAuthenticated\<close>: \<open>None\<close> is \<open>next()\<close>, \<open>Some r\<close> is the response that ends the
  request.
\<close>

definition isAuthenticated :: "server \<Rightarrow> string \<Rightarrow> response option" where
  "isAuthenticated s path =
     (if session_user s then None
      else if startsWith path ''/api/''
      then Some (Json 401 False ''Unauthorized. Please sign in.'')
      else Some (Redirect ''/signin.html''))"

text \<open>
  The rate limiter, the static file middleware and the body parsers are libraries. The
  limiter's verdict for the request is an input; \<open>express.static\<close> answers a GET whose
  path is a file of the \<open>public\<close> directory and passes every other request on; a body
  parser refuses a body of more bytes than its limit. \<open>express.json()\<close> and
  \<open>express.urlencoded()\<close> have the default limit of 100kb; part_000 sets the limit for
  JSON to 10kb (line 75).
\<close>

definition json_limit :: "server_file \<Rightarrow> nat" where
  "json_limit f = (case f of Server_js \<Rightarrow> 102400 | Part_000 \<Rightarrow> 10240)"

definition urlencoded_limit :: nat where
  "urlencoded_limit = 102400"

definition body_parser :: "nat \<Rightarrow> nat \<Rightarrow> response option" where
  "body_parser limit bytes = (if limit < bytes then Some PayloadTooLarge else None)"

definition authLimiter :: "bool \<Rightarrow> response option" where
  "authLimiter limited =
     (if limited
      then Some (Send 429 ''Too many login or password change attempts from this IP, please try again after 15 minutes'')
      else None)"

definition express_static :: "string list \<Rightarrow> string \<Rightarrow> response option" where
  "express_static public p = (if p \<in> set public then Some (SendFile p) else None)"

record env =
  ADMIN_USERNAME :: "string option"
  nominatim :: "nat \<Rightarrow> geo_outcome"
  salt_drawn :: nat
  rate_limited :: bool
  destroy_error :: bool
  public_dir :: "string list"
  body_bytes :: nat

datatype request =
    Get string
  | PostRules rules_field
  | PostAddresses addresses_field
  | PostSignin string string
  | PostSignout
  | PostChangePassword string string

definition parsed :: "nat \<Rightarrow> env \<Rightarrow> server \<Rightarrow> (response \<times> server \<times> event list) \<Rightarrow> response \<times> server \<times> event list" where
  "parsed limit e s rest = (case body_parser limit (body_bytes e) of Some r \<Rightarrow> (r, s, []) | None \<Rightarrow> rest)"

text \<open>
  \<open>src/server.js\<close>: the body parsers, the API routes, then the static files, then sign-in
  and password change; no session, no gate, no limiter, no sign-out route.
\<close>

definition server_js :: "env \<Rightarrow> request \<Rightarrow> server \<Rightarrow> response \<times> server \<times> event list" where
  "server_js e req s = (case req of
       Get p \<Rightarrow>
         if p = ''/api/addresses'' then get_addresses s
         else if p = ''/api/rules'' then get_rules s
         else (case express_static (public_dir e) p of
                 Some r \<Rightarrow> (r, s, [])
               | None \<Rightarrow> (NotFound, s, []))
     | PostRules b \<Rightarrow> parsed (json_limit Server_js) e s (post_rules Server_js b s)
     | PostAddresses b \<Rightarrow>
         parsed (json_limit Server_js) e s (post_addresses Server_js (nominatim e) b s)
     | PostSignin u p \<Rightarrow>
         parsed urlencoded_limit e s (signin Server_js (ADMIN_USERNAME e) u p s)
     | PostSignout \<Rightarrow> (NotFound, s, [])
     | PostChangePassword c n \<Rightarrow>
         parsed (json_limit Server_js) e s (change_password (salt_drawn e) c n s))"

text \<open>
  \<open>src/unnamed/part_000\<close>: the static files come first (line 48), before the body
  parsers, the session and every route, the route for \<open>/admin.html\<close> (line 177) included.
  That route sends the file \<open>public/admin.html\<close>, which fails when the file is not there.
  The body parsers stand before the gate and the limiter. The sign-out request has no body.
\<close>

definition gated :: "server \<Rightarrow> string \<Rightarrow> (response \<times> server \<times> event list) \<Rightarrow> response \<times> server \<times> event list" where
  "gated s path handler = (case isAuthenticated s path of Some r \<Rightarrow> (r, s, []) | None \<Rightarrow> handler)"

definition limited :: "env \<Rightarrow> server \<Rightarrow> (response \<times> server \<times> event list) \<Rightarrow> response \<times> server \<times> event list" where
  "limited e s handler = (case authLimiter (rate_limited e) of Some r \<Rightarrow> (r, s, []) | None \<Rightarrow> handler)"

definition part_000 :: "env \<Rightarrow> request \<Rightarrow> server \<Rightarrow> response \<times> server \<times> event list" where
  "part_000 e req s = (case req of
       Get p \<Rightarrow>
         (case express_static (public_dir e) p of
            Some r \<Rightarrow> (r, s, [])
          | None \<Rightarrow>
              if p = ''/api/addresses'' then get_addresses s
              else if p = ''/api/rules'' then get_rules s
              else if p = ''/admin.html''
              then gated s p
                     (if ''/admin.html'' \<in> set (public_dir e)
                      then (SendFile ''/admin.html'', s, []) else (NotFound, s, []))
              else (NotFound, s, []))
     | PostRules b \<Rightarrow>
         parsed (json_limit Part_000) e s (gated s ''/api/rules'' (post_rules Part_000 b s))
     | PostAddresses b \<Rightarrow>
         parsed (json_limit Part_000) e s
           (gated s ''/api/addresses'' (post_addresses Part_000 (nominatim e) b s))
     | PostSignin u p \<Rightarrow>
         parsed urlencoded_limit e s (limited e s (signin Part_000 (ADMIN_USERNAME e) u p s))
     | PostSignout \<Rightarrow> signout (destroy_error e) s
     | PostChangePassword c n \<Rightarrow>
         parsed (json_limit Part_000) e s
           (gated s ''/api/change-password'' (limited e s (change_password (salt_drawn e) c n s))))"

section \<open>The admin client (admin page script)\<close>

text \<open>
  String primitives of JavaScript on 8-bit characters: \<open>toLowerCase\<close> on the ASCII
  letters, \<open>trim\<close> on the ASCII white space and line terminators.
\<close>

definition toLowerCase_char :: "char \<Rightarrow> char" where
  "toLowerCase_char c =
     (let n = (of_char c :: nat) in if 65 \<le> n \<and> n \<le> 90 then char_of (n + 32) else c)"

definition toLowerCase :: "string \<Rightarrow> string" where
  "toLowerCase s = map toLowerCase_char s"

definition is_space :: "char \<Rightarrow> bool" where
  "is_space c = ((of_char c :: nat) \<in> {9, 10, 11, 12, 13, 32})"

definition trim :: "string \<Rightarrow> string" where
  "trim s = rev (dropWhile is_space (rev (dropWhile is_space s)))"

definition endsWith :: "string \<Rightarrow> string \<Rightarrow> bool" where
  "endsWith s suffix =
     (length suffix \<le> length s \<and> drop (length s - length suffix) s = suffix)"

definition locationSuffix :: string where
  "locationSuffix = '' ardlethan nsw 2665''"

text \<open>
  The \<open>while\<close> loop of \<open>handleEdit\<close>. \<open>streetPart\<close> and \<open>fullAddress\<close> are equal at every
  test of the loop's condition, so one variable carries both.
\<close>

function strip_suffix :: "string \<Rightarrow> string" where
  "strip_suffix streetPart =
     (if endsWith (toLowerCase streetPart) locationSuffix
      then strip_suffix (trim (take (length streetPart - length locationSuffix) streetPart))
      else streetPart)"
  by pat_completeness auto
termination
proof (relation "measure length")
  show "wf (measure length)" by simp
next
  fix streetPart :: string
  assume e: "endsWith (toLowerCase streetPart) locationSuffix"
  have a: "length locationSuffix \<le> length streetPart"
    using e by (simp add: endsWith_def toLowerCase_def)
  have b: "0 < length locationSuffix"
    by (simp add: locationSuffix_def)
  from a b have "length streetPart - length locationSuffix < length streetPart"
    by arith
  then have "length (take (length streetPart - length locationSuffix) streetPart) < length streetPart"
    by simp
  moreover have "length (trim t) \<le> length t" for t
  proof -
    have "length (trim t) = length (dropWhile is_space (rev (dropWhile is_space t)))"
      by (simp add: trim_def)
    also have "\<dots> \<le> length (rev (dropWhile is_space t))"
      by (rule length_dropWhile_le)
    also have "\<dots> = length (dropWhile is_space t)"
      by simp
    also have "\<dots> \<le> length t"
      by (rule length_dropWhile_le)
    finally show ?thesis .
  qed
  ultimately have "length (trim (take (length streetPart - length locationSuffix) streetPart)) < length streetPart"
    by (rule le_less_trans [rotated])
  then show "(trim (take (length streetPart - length locationSuffix) streetPart), streetPart) \<in> measure length"
    by simp
qed

text \<open>
  \<open>handleEdit(index)\<close> opens the two inputs with these values; reading
  \<open>currentAddresses[index]\<close> out of range is a TypeError (\<open>None\<close>).
\<close>

definition handleEdit :: "nat \<Rightarrow> address list \<Rightarrow> (string \<times> string) option" where
  "handleEdit index currentAddresses =
     (if index < length currentAddresses
      then Some (strip_suffix (atext (currentAddresses ! index)),
                 (case instructions (currentAddresses ! index) of None \<Rightarrow> [] | Some i \<Rightarrow> i))
      else None)"

text \<open>
  The Save button of the edit row, with what the two inputs hold when it is clicked. The
  result is the list that \<open>saveAddresses\<close> posts.
\<close>

definition save_edit :: "nat \<Rightarrow> string \<Rightarrow> string \<Rightarrow> address list \<Rightarrow> address list option" where
  "save_edit index input_value instructions_value currentAddresses =
     (if index < length currentAddresses then
        (let a = currentAddresses ! index;
             oldAddressText = atext a;
             newStreetPart = trim input_value;
             newInstructions = trim instructions_value;
             newAddressText = newStreetPart @ '' '' @ locationSuffix;
             a1 = (if newAddressText \<noteq> oldAddressText then a\<lparr>lat := None, lon := None\<rparr> else a);
             a2 = a1\<lparr>atext := newAddressText,
                     instructions := (if truthy_str newInstructions then Some newInstructions else None)\<rparr>
         in Some (currentAddresses[index := a2]))
      else None)"

text \<open>The submit handler of the add form; its suffix has no leading space.\<close>

definition add_address :: "string \<Rightarrow> string \<Rightarrow> address list \<Rightarrow> address list" where
  "add_address new_address new_instructions currentAddresses =
     (let streetAddress = trim new_address in
      if truthy_str streetAddress then
        (let fullAddress = streetAddress @ '' '' @ ''ardlethan nsw 2665'';
             instr = trim new_instructions
         in currentAddresses @
            [\<lparr>atext = fullAddress, lat = None, lon = None,
              instructions = (if truthy_str instr then Some instr else None)\<rparr>])
      else currentAddresses)"

section \<open>Notions the properties are stated with\<close>

text \<open>The queries of the lookups in a trace, in order.\<close>

fun fetches :: "event list \<Rightarrow> string list" where
  "fetches [] = []"
| "fetches (Fetch q # es) = q # fetches es"
| "fetches (e # es) = fetches es"

fun writes :: "event list \<Rightarrow> nat" where
  "writes [] = 0"
| "writes (DbWrite # es) = Suc (writes es)"
| "writes (e # es) = writes es"

text \<open>The number of lookups the loop has made when it reaches position \<open>i\<close> of the list.\<close>

definition calls_before :: "address list \<Rightarrow> nat \<Rightarrow> nat" where
  "calls_before xs i = length (filter needs_geocode (take i xs))"

definition lookup_failed :: "geo_outcome \<Rightarrow> bool" where
  "lookup_failed r = (r = GeoThrows \<or> r = GeoData [])"

text \<open>\<open>lat\<close> is present exactly when \<open>lon\<close> is.\<close>

definition paired :: "address \<Rightarrow> bool" where
  "paired a = ((lat a = None) = (lon a = None))"

text \<open>
  A trace is spaced when a delay of at least a second has been awaited between any lookup
  and the one before it. The flag says that a lookup has been made and no such delay since.
\<close>

fun spaced :: "bool \<Rightarrow> event list \<Rightarrow> bool" where
  "spaced pending [] = True"
| "spaced pending (Fetch q # es) = (\<not> pending \<and> spaced True es)"
| "spaced pending (Delay ms # es) = spaced (if 1000 \<le> ms then False else pending) es"
| "spaced pending (e # es) = spaced pending es"

text \<open>
  The client posting back what \<open>GET /api/addresses\<close> answered, under the key
  \<open>addresses\<close>.
\<close>

definition listed :: "server \<Rightarrow> addresses_field" where
  "listed s = (case fst (get_addresses s) of JsonAddresses l \<Rightarrow> Array l | _ \<Rightarrow> NotArray)"

section \<open>Concrete states\<close>

text \<open>
  The server after its first start: the default document, its password hashed, written to
  the file; nobody signed in.
\<close>

definition default_doc :: doc where
  "default_doc = \<lparr>addresses = [], rules = [], adminPassword = bcrypt_hash 0 ''password123''\<rparr>"

definition started :: server where
  "started = \<lparr>db_data = default_doc, db_file = default_doc, session_user = False\<rparr>"

definition holding :: "bool \<Rightarrow> address list \<Rightarrow> server" where
  "holding signed_in xs =
     \<lparr>db_data = default_doc\<lparr>addresses := xs\<rparr>,
      db_file = default_doc\<lparr>addresses := xs\<rparr>, session_user = signed_in\<rparr>"

text \<open>
  An environment: the \<open>public\<close> directory holds the two pages the server names,
  \<open>admin.html\<close> (line 178 of part_000 sends it) and \<open>signin.html\<close> (line 110 redirects
  to it); the request's body has 64 bytes.
\<close>

definition site :: env where
  "site = \<lparr>ADMIN_USERNAME = Some ''admin'',
           nominatim = (\<lambda>k. GeoData [(-34.33, 146.9)]),
           salt_drawn = 1, rate_limited = False, destroy_error = False,
           public_dir = [''/admin.html'', ''/signin.html''], body_bytes = 64\<rparr>"



definition main_st :: address where
  "main_st = \<lparr>atext = ''12 Main St ardlethan nsw 2665'', lat = None, lon = None, instructions = None\<rparr>"

definition high_st :: address where
  "high_st = \<lparr>atext = ''3 High St ardlethan nsw 2665'', lat = None, lon = None, instructions = None\<rparr>"

section \<open>Facts about the geocoding loop\<close>

lemma fetches_append: "fetches (xs @ ys) = fetches xs @ fetches ys"
  by (induction xs rule: fetches.induct) simp_all

lemma writes_append: "writes (xs @ ys) = writes xs + writes ys"
  by (induction xs rule: writes.induct) simp_all

lemma geocode_one_fetches: "fetches (snd (geocode_one r a)) = [atext a]"
  by (cases "(r, a)" rule: geocode_one.cases) simp_all

lemma geocode_one_writes: "writes (snd (geocode_one r a)) = 0"
  by (cases "(r, a)" rule: geocode_one.cases) simp_all

lemma geocode_one_failed: "lookup_failed r \<Longrightarrow> fst (geocode_one r a) = a"
  by (cases "(r, a)" rule: geocode_one.cases) (simp_all add: lookup_failed_def)

lemma geocode_one_paired: "paired a \<Longrightarrow> paired (fst (geocode_one r a))"
  by (cases "(r, a)" rule: geocode_one.cases) (simp_all add: paired_def)

lemma geocode_one_matched:
  "\<not> lookup_failed r \<Longrightarrow>
   lat (fst (geocode_one r a)) \<noteq> None \<and> lon (fst (geocode_one r a)) \<noteq> None"
  by (cases "(r, a)" rule: geocode_one.cases) (simp_all add: lookup_failed_def)

lemma geocode_one_match:
  "fst (geocode_one (GeoData ((la, lo) # ms)) a) = a\<lparr>lat := Some la, lon := Some lo\<rparr>"
  by simp

lemma geocode_loop_length: "length (fst (geocode_loop geo n xs)) = length xs"
  by (induction xs arbitrary: n) (simp_all add: split_beta Let_def)

text \<open>One lookup for each address that needs one, in the order of the list, and no other.\<close>

lemma geocode_loop_fetches:
  "fetches (snd (geocode_loop geo n xs)) = map atext (filter needs_geocode xs)"
  by (induction xs arbitrary: n)
     (simp_all add: split_beta Let_def fetches_append geocode_one_fetches)

lemma geocode_loop_writes: "writes (snd (geocode_loop geo n xs)) = 0"
  by (induction xs arbitrary: n)
     (simp_all add: split_beta Let_def writes_append geocode_one_writes)

text \<open>What the loop makes of the entry at position \<open>i\<close>.\<close>

lemma geocode_loop_nth:
  "i < length xs \<Longrightarrow>
   fst (geocode_loop geo n xs) ! i =
     (if needs_geocode (xs ! i)
      then fst (geocode_one (geo (n + calls_before xs i)) (xs ! i))
      else xs ! i)"
proof (induction xs arbitrary: n i)
  case Nil
  then show ?case by simp
next
  case (Cons a as)
  show ?case
  proof (cases i)
    case 0
    then show ?thesis by (simp add: split_beta Let_def calls_before_def)
  next
    case (Suc j)
    with Cons.prems have j: "j < length as" by simp
    show ?thesis
      using Cons.IH [OF j, of "Suc n"] Cons.IH [OF j, of n] Suc
      by (simp add: split_beta Let_def calls_before_def)
  qed
qed

lemma geocode_loop_idle:
  "\<forall>a \<in> set xs. \<not> needs_geocode a \<Longrightarrow> geocode_loop geo n xs = (xs, [])"
  by (induction xs arbitrary: n) simp_all

lemma post_addresses_Array:
  "post_addresses f geo (Array xs) s =
     (Json 200 True ''Addresses updated successfully.'',
      db_write (s\<lparr>db_data := (db_data s)\<lparr>addresses := fst (geocode_loop geo 0 xs)\<rparr>\<rparr>),
      snd (geocode_loop geo 0 xs) @ [DbWrite])"
  by (simp add: post_addresses_def split_beta)

text \<open>
  An entry whose two coordinates are truthy (present and not zero) is left as it is, and by
  \<open>geocode_loop_fetches\<close> no lookup is made for it.
\<close>

lemma truthy_coordinates_kept:
  assumes "i < length xs" and "truthy_num (lat (xs ! i))" and "truthy_num (lon (xs ! i))"
  shows "fst (geocode_loop geo n xs) ! i = xs ! i"
  using assms by (simp add: geocode_loop_nth needs_geocode_def)

section \<open>The address service\<close>

text \<open>
  C2. Claim: an address of the submitted list that has both \<open>lat\<close> and \<open>lon\<close> set keeps
  its coordinates and causes no lookup, also when \<open>lat\<close> or \<open>lon\<close> is 0.
  The handler tests the coordinates for truthiness, and 0 is falsy: an address on the
  equator, with \<open>lat = 0\<close> and \<open>lon = 146.9\<close>, is looked up and its latitude overwritten.
\<close>

theorem C2_zero_latitude_is_looked_up_again:
  "post_addresses Part_000 (\<lambda>k. GeoData [(-34.33, 146.9)])
     (Array [main_st\<lparr>lat := Some 0, lon := Some 146.9\<rparr>]) started =
   (Json 200 True ''Addresses updated successfully.'',
    db_write (started\<lparr>db_data := (db_data started)
       \<lparr>addresses := [main_st\<lparr>lat := Some (-34.33), lon := Some 146.9\<rparr>]\<rparr>\<rparr>),
    [Fetch ''12 Main St ardlethan nsw 2665'', Delay 1000, DbWrite])"
  by (simp add: post_addresses_def needs_geocode_def truthy_str_def truthy_num_def main_st_def)

text \<open>
  C3. Claim: after every successful save each persisted address has \<open>lat\<close> exactly when it
  has \<open>lon\<close>, for every submitted list and every sequence of geocoder responses.
  It fails: the handler does not look at the shape of what is submitted, and an address
  that arrives with a latitude only is written to the file with a latitude only when its
  lookup throws.
\<close>

theorem C3_one_coordinate_is_persisted:
  "(case post_addresses Part_000 (\<lambda>k. GeoThrows) (Array [main_st\<lparr>lat := Some (-34.33)\<rparr>]) started of
      (r, s', evs) \<Rightarrow>
        r = Json 200 True ''Addresses updated successfully.'' \<and>
        addresses (db_file s') = [main_st\<lparr>lat := Some (-34.33)\<rparr>] \<and>
        \<not> paired (addresses (db_file s') ! 0))"
  by (simp add: post_addresses_def needs_geocode_def truthy_str_def truthy_num_def main_st_def
      db_write_def paired_def)

text \<open>
  C3, as amended. The save never breaks the pairing: for every submitted list and every
  sequence of geocoder responses the save succeeds, and each address that was submitted
  with \<open>lat\<close> exactly when \<open>lon\<close> is persisted so; so is each address whose lookup
  returned a match.
\<close>

theorem C3_pairing_is_preserved:
  "(case post_addresses f geo (Array xs) s of
      (r, s', evs) \<Rightarrow>
        r = Json 200 True ''Addresses updated successfully.'' \<and>
        db_file s' = db_data s' \<and>
        length (addresses (db_data s')) = length xs \<and>
        (\<forall>i < length xs. paired (xs ! i) \<longrightarrow> paired (addresses (db_data s') ! i)) \<and>
        (\<forall>i < length xs. needs_geocode (xs ! i) \<and> \<not> lookup_failed (geo (calls_before xs i)) \<longrightarrow>
            paired (addresses (db_data s') ! i)))"
proof -
  have "paired (fst (geocode_loop geo 0 xs) ! i)" if "i < length xs" "paired (xs ! i)" for i
    using that by (simp add: geocode_loop_nth geocode_one_paired)
  moreover have "paired (fst (geocode_loop geo 0 xs) ! i)"
    if "i < length xs" "needs_geocode (xs ! i)" "\<not> lookup_failed (geo (calls_before xs i))" for i
    using that geocode_one_matched [OF that(3), of "xs ! i"]
    by (auto simp add: geocode_loop_nth paired_def)
  ultimately show ?thesis
    by (simp add: post_addresses_Array db_write_def geocode_loop_length)
qed

theorem C3_pairing_is_preserved_witness:
  "paired main_st \<and>
   paired (addresses (db_data (fst (snd
      (post_addresses Part_000 (\<lambda>k. GeoThrows) (Array [main_st]) started)))) ! 0)"
  using C3_pairing_is_preserved
          [where f = Part_000 and geo = "\<lambda>k. GeoThrows" and xs = "[main_st]" and s = started]
  by (simp add: split_beta paired_def main_st_def)

text \<open>
  C4. Claim: a lookup that fails, by a network error or an empty result, does not abort the
  batch: that address is persisted without coordinates, every later address still gets its
  own lookup, and the save succeeds.
  The batch is not aborted, but the address is persisted as it was submitted, and that is
  with a coordinate when it was submitted with one: the handler looks up an address that
  has a latitude and no longitude, the lookup throws, and the latitude is written to the
  file.
\<close>

theorem C4_failed_lookup_keeps_a_submitted_coordinate:
  "needs_geocode (high_st\<lparr>lat := Some (-34.3)\<rparr>) \<and>
   (case post_addresses Part_000 (\<lambda>k. if k = 0 then GeoThrows else GeoData [(-34.33, 146.9)])
           (Array [high_st\<lparr>lat := Some (-34.3)\<rparr>, main_st]) started of
      (r, s', evs) \<Rightarrow>
        r = Json 200 True ''Addresses updated successfully.'' \<and>
        fetches evs = [atext high_st, atext main_st] \<and>
        addresses (db_file s') =
          [high_st\<lparr>lat := Some (-34.3)\<rparr>, main_st\<lparr>lat := Some (-34.33), lon := Some 146.9\<rparr>] \<and>
        lat (addresses (db_file s') ! 0) = Some (-34.3))"
  by (simp add: post_addresses_def needs_geocode_def truthy_str_def truthy_num_def main_st_def
      high_st_def db_write_def)

text \<open>
  C4, as amended. A lookup that fails, by throwing or by returning no match, does not abort
  the batch: for every submitted list of address objects and every sequence of geocoder
  responses the save succeeds and writes a list of the same length; every address that
  needs a lookup gets one, in order, whatever happened to the lookups before it; an address
  whose lookup failed is persisted exactly as it was submitted, so without coordinates when
  it was submitted with none; and an address whose own lookup returned a match is persisted
  with the coordinates of the first match, whatever happened to the other lookups.
\<close>

theorem C4_failed_lookup_does_not_abort:
  "(case post_addresses f geo (Array xs) s of
      (r, s', evs) \<Rightarrow>
        r = Json 200 True ''Addresses updated successfully.'' \<and>
        db_file s' = db_data s' \<and>
        length (addresses (db_data s')) = length xs \<and>
        fetches evs = map atext (filter needs_geocode xs) \<and>
        (\<forall>i < length xs. needs_geocode (xs ! i) \<and> lookup_failed (geo (calls_before xs i)) \<longrightarrow>
            addresses (db_data s') ! i = xs ! i \<and>
            (lat (xs ! i) = None \<and> lon (xs ! i) = None \<longrightarrow>
               lat (addresses (db_data s') ! i) = None \<and> lon (addresses (db_data s') ! i) = None)) \<and>
        (\<forall>i < length xs. \<forall>la lo ms.
            needs_geocode (xs ! i) \<and> geo (calls_before xs i) = GeoData ((la, lo) # ms) \<longrightarrow>
            addresses (db_data s') ! i = (xs ! i)\<lparr>lat := Some la, lon := Some lo\<rparr>))"
proof -
  have failed: "fst (geocode_loop geo 0 xs) ! i = xs ! i"
    if "i < length xs" "needs_geocode (xs ! i)" "lookup_failed (geo (calls_before xs i))" for i
    using that by (simp add: geocode_loop_nth geocode_one_failed)
  have matched: "fst (geocode_loop geo 0 xs) ! i = (xs ! i)\<lparr>lat := Some la, lon := Some lo\<rparr>"
    if "i < length xs" "needs_geocode (xs ! i)" "geo (calls_before xs i) = GeoData ((la, lo) # ms)"
    for i la lo ms
    using that by (simp add: geocode_loop_nth)
  from failed matched show ?thesis
    by (auto simp add: post_addresses_Array db_write_def geocode_loop_length fetches_append
        geocode_loop_fetches)
qed

theorem C4_failed_lookup_does_not_abort_witness:
  "needs_geocode ([main_st, high_st] ! 0) \<and>
   lookup_failed ((\<lambda>k. if k = 0 then GeoThrows else GeoData [(-34.33, 146.9)])
                    (calls_before [main_st, high_st] 0)) \<and>
   lat ([main_st, high_st] ! 0) = None \<and> lon ([main_st, high_st] ! 0) = None \<and>
   needs_geocode ([main_st, high_st] ! 1) \<and>
   (\<lambda>k. if k = 0 then GeoThrows else GeoData [(-34.33, 146.9)])
      (calls_before [main_st, high_st] 1) = GeoData [(-34.33, 146.9)] \<and>
   (case post_addresses Part_000 (\<lambda>k. if k = 0 then GeoThrows else GeoData [(-34.33, 146.9)])
           (Array [main_st, high_st]) started of
      (r, s', evs) \<Rightarrow>
        r = Json 200 True ''Addresses updated successfully.'' \<and>
        addresses (db_data s') ! 0 = main_st \<and>
        lat (addresses (db_data s') ! 0) = None \<and> lon (addresses (db_data s') ! 0) = None \<and>
        addresses (db_data s') ! 1 = high_st\<lparr>lat := Some (-34.33), lon := Some 146.9\<rparr> \<and>
        fetches evs = [atext main_st, atext high_st])"
  using C4_failed_lookup_does_not_abort
          [where f = Part_000
             and geo = "\<lambda>k. if k = 0 then GeoThrows else GeoData [(-34.33, 146.9)]"
             and xs = "[main_st, high_st]" and s = started]
  by (simp add: split_beta needs_geocode_def truthy_str_def truthy_num_def main_st_def high_st_def
      lookup_failed_def calls_before_def post_addresses_def db_write_def)

text \<open>
  C6. Claim: a body whose \<open>addresses\<close> is not an array is answered with status 400 and
  the stored document is unchanged; when it is an array, the entire submitted list, after
  geocoding, replaces the stored list in one write.
  The second part fails for an array that holds a \<open>null\<close>: the handler throws at that
  element, after the lookups of the elements before it; nothing is answered and nothing is
  written, and the stored list is the one it was.
\<close>

theorem C6_array_with_null_is_not_saved:
  "server_js site (PostAddresses (NullAfter [main_st])) (holding False [high_st]) =
     (Unanswered, holding False [high_st], [Fetch ''12 Main St ardlethan nsw 2665'', Delay 1000]) \<and>
   part_000 site (PostAddresses (NullAfter [])) (holding True [high_st]) =
     (Unanswered, holding True [high_st], [])"
  by (simp add: server_js_def part_000_def parsed_def body_parser_def json_limit_def gated_def
      isAuthenticated_def post_addresses_def site_def holding_def main_st_def needs_geocode_def
      truthy_str_def truthy_num_def)

text \<open>
  C6, as amended. A body whose \<open>addresses\<close> is not an array is answered with status 400
  and nothing changes: no lookup, no write, the state as it was. An array of address
  objects is geocoded, then the entire list takes the place of the stored list, in memory
  and in the file, with one write, the last effect of the request: the stored list has the
  length and the order of the submitted one, each entry is the submitted entry, with
  \<open>lat\<close> and \<open>lon\<close> set from the first match when it needed a lookup and its own lookup
  returned one, and nothing else of the state changes. An array that holds a \<open>null\<close> is
  not saved: the handler throws, answers nothing and writes nothing. The route of
  \<open>src/server.js\<close> is this handler for a body within the parser's limit of 100kb, and so
  is the route of part_000 for a request with a session and a body within its limit of
  10kb.
\<close>

theorem C6_whole_list_or_nothing:
  "(body_bytes e \<le> 102400 \<longrightarrow>
      server_js e (PostAddresses b) s = post_addresses Server_js (nominatim e) b s) \<and>
   (session_user s \<and> body_bytes e \<le> 10240 \<longrightarrow>
      part_000 e (PostAddresses b) s = post_addresses Part_000 (nominatim e) b s) \<and>
   post_addresses f geo NotArray s = (Json 400 False (invalid_addresses f), s, []) \<and>
   (case post_addresses f geo (NullAfter xs) s of
      (r, s', evs) \<Rightarrow> r = Unanswered \<and> s' = s \<and> writes evs = 0) \<and>
   (case post_addresses f geo (Array xs) s of
      (r, s', evs) \<Rightarrow>
        r = Json 200 True ''Addresses updated successfully.'' \<and>
        rules (db_data s') = rules (db_data s) \<and>
        adminPassword (db_data s') = adminPassword (db_data s) \<and>
        session_user s' = session_user s \<and>
        db_file s' = db_data s' \<and>
        length (addresses (db_data s')) = length xs \<and>
        (\<forall>i < length xs.
           (\<not> needs_geocode (xs ! i) \<longrightarrow> addresses (db_data s') ! i = xs ! i) \<and>
           (needs_geocode (xs ! i) \<and> lookup_failed (geo (calls_before xs i)) \<longrightarrow>
              addresses (db_data s') ! i = xs ! i) \<and>
           (\<forall>la lo ms.
              needs_geocode (xs ! i) \<and> geo (calls_before xs i) = GeoData ((la, lo) # ms) \<longrightarrow>
              addresses (db_data s') ! i = (xs ! i)\<lparr>lat := Some la, lon := Some lo\<rparr>)) \<and>
        writes evs = 1 \<and> last evs = DbWrite)"
  (is "?plain \<and> ?secured \<and> ?refused \<and> ?thrown \<and> ?saved")
proof -
  have plain: ?plain
    by (simp add: server_js_def parsed_def body_parser_def json_limit_def)
  have secured: ?secured
    by (simp add: part_000_def parsed_def body_parser_def json_limit_def gated_def
        isAuthenticated_def)
  have refused: ?refused
    by (simp add: post_addresses_def)
  have thrown: ?thrown
    by (simp add: post_addresses_def split_beta geocode_loop_writes)
  have kept: "fst (geocode_loop geo 0 xs) ! i = xs ! i"
    if "i < length xs" "\<not> needs_geocode (xs ! i)" for i
    using that by (simp add: geocode_loop_nth)
  have failed: "fst (geocode_loop geo 0 xs) ! i = xs ! i"
    if "i < length xs" "needs_geocode (xs ! i)" "lookup_failed (geo (calls_before xs i))" for i
    using that by (simp add: geocode_loop_nth geocode_one_failed)
  have matched: "fst (geocode_loop geo 0 xs) ! i = (xs ! i)\<lparr>lat := Some la, lon := Some lo\<rparr>"
    if "i < length xs" "needs_geocode (xs ! i)" "geo (calls_before xs i) = GeoData ((la, lo) # ms)"
    for i la lo ms
    using that by (simp add: geocode_loop_nth)
  have saved: ?saved
    using kept failed matched
    by (auto simp add: post_addresses_Array db_write_def writes_append geocode_loop_writes
        geocode_loop_length)
  from plain secured refused thrown saved show ?thesis
    by blast
qed

theorem C6_whole_list_or_nothing_witness:
  "session_user (holding True [main_st]) \<and> body_bytes site \<le> 10240 \<and>
   part_000 site (PostAddresses NotArray) (holding True [main_st]) =
     (Json 400 False ''Invalid data format.'', holding True [main_st], []) \<and>
   server_js site (PostAddresses NotArray) (holding True [main_st]) =
     (Json 400 False ''Invalid data format. Expected an array of addresses.'',
      holding True [main_st], []) \<and>
   \<not> needs_geocode ([main_st\<lparr>lat := Some (-34.3), lon := Some 146.8\<rparr>, high_st] ! 0) \<and>
   needs_geocode ([main_st\<lparr>lat := Some (-34.3), lon := Some 146.8\<rparr>, high_st] ! 1) \<and>
   nominatim site (calls_before [main_st\<lparr>lat := Some (-34.3), lon := Some 146.8\<rparr>, high_st] 1) =
     GeoData [(-34.33, 146.9)] \<and>
   addresses (db_file (fst (snd
      (post_addresses Server_js (nominatim site)
         (Array [main_st\<lparr>lat := Some (-34.3), lon := Some 146.8\<rparr>, high_st])
         (holding True [main_st])))))
     = [main_st\<lparr>lat := Some (-34.3), lon := Some 146.8\<rparr>,
        high_st\<lparr>lat := Some (-34.33), lon := Some 146.9\<rparr>]"
  using C6_whole_list_or_nothing
          [where f = Server_js and geo = "nominatim site" and s = "holding True [main_st]"
             and xs = "[main_st\<lparr>lat := Some (-34.3), lon := Some 146.8\<rparr>, high_st]"
             and e = site and b = NotArray]
        C6_whole_list_or_nothing
          [where f = Part_000 and geo = "nominatim site" and s = "holding True [main_st]"
             and xs = "[main_st\<lparr>lat := Some (-34.3), lon := Some 146.8\<rparr>, high_st]"
             and e = site and b = NotArray]
  by (simp add: split_beta invalid_addresses_def site_def needs_geocode_def truthy_str_def
      truthy_num_def high_st_def main_st_def holding_def calls_before_def post_addresses_def
      db_write_def)

text \<open>
  Posting back what was listed changes nothing of the document when no stored address
  passes the handler's own test for a lookup.
\<close>

lemma roundtrip_when_nothing_to_look_up:
  assumes "\<forall>a \<in> set (addresses (db_data s)). \<not> needs_geocode a"
  shows "db_data (fst (snd (post_addresses f geo (listed s) s))) = db_data s"
  using assms
  by (simp add: listed_def get_addresses_def post_addresses_Array geocode_loop_idle db_write_def)

text \<open>
  C8. Claim: when every stored address with a text has both coordinates, posting back what
  \<open>GET /api/addresses\<close> lists leaves the stored document unchanged.
  A stored address with both coordinates, one of them 0, is looked up again on the way
  back, and the match replaces its coordinates: the document changes.
\<close>

theorem C8_round_trip_moves_a_zero_latitude:
  "addresses (db_data (holding True [main_st\<lparr>lat := Some 0, lon := Some 146.9\<rparr>])) =
     [main_st\<lparr>lat := Some 0, lon := Some 146.9\<rparr>] \<and>
   addresses (db_data (fst (snd (post_addresses Part_000 (nominatim site)
       (listed (holding True [main_st\<lparr>lat := Some 0, lon := Some 146.9\<rparr>]))
       (holding True [main_st\<lparr>lat := Some 0, lon := Some 146.9\<rparr>]))))) =
     [main_st\<lparr>lat := Some (-34.33), lon := Some 146.9\<rparr>]"
  by (simp add: listed_def get_addresses_def post_addresses_def holding_def site_def main_st_def
      needs_geocode_def truthy_str_def truthy_num_def db_write_def)

text \<open>
  When no lookup throws, every lookup of a batch is followed by its second of delay.
\<close>

lemma spaced_geocode_loop:
  assumes "\<forall>k. geo k \<noteq> GeoThrows"
  shows "spaced False (snd (geocode_loop geo n xs) @ evs) = spaced False evs"
proof (induction xs arbitrary: n)
  case Nil
  then show ?case by simp
next
  case (Cons a as)
  show ?case
  proof (cases "needs_geocode a")
    case False
    then show ?thesis using Cons.IH by (simp add: split_beta)
  next
    case True
    obtain ms where "geo n = GeoData ms" using assms by (cases "geo n") auto
    then show ?thesis using True Cons.IH [of "Suc n"]
      by (cases ms) (auto simp add: split_beta)
  qed
qed

lemma spaced_when_no_lookup_throws:
  assumes "\<forall>k. geo k \<noteq> GeoThrows"
  shows "spaced False (snd (snd (post_addresses f geo (Array xs) s)))"
  using spaced_geocode_loop [OF assms, of 0 xs "[DbWrite]"]
  by (simp add: post_addresses_Array)

text \<open>
  C9. Claim: each address with a text and a coordinate missing gets exactly one lookup per
  batch, no other address gets one, and consecutive lookups are at least the delay of one
  second apart, also when a lookup fails.
  The delay is awaited inside the \<open>try\<close>. When the first lookup of a batch throws, the
  second one is made at once: no delay stands between the two in the trace.
\<close>

theorem C9_no_delay_after_a_lookup_that_throws:
  "(case post_addresses Part_000 (\<lambda>k. if k = 0 then GeoThrows else GeoData [(-34.33, 146.9)])
          (Array [main_st, high_st]) started of
      (r, s', evs) \<Rightarrow>
        evs = [Fetch ''12 Main St ardlethan nsw 2665'', Fetch ''3 High St ardlethan nsw 2665'',
               Delay 1000, DbWrite] \<and>
        \<not> spaced False evs)"
  by (simp add: post_addresses_def main_st_def high_st_def needs_geocode_def truthy_str_def
      truthy_num_def)

section \<open>The auth gate\<close>

text \<open>
  In part_000 the three mutating routes answer a request without a session, whose body the
  parser has let through, with status 401 and change nothing.
\<close>

lemma part_000_gate:
  assumes "\<not> session_user s" and "body_bytes e \<le> 10240"
  shows "part_000 e (PostAddresses b) s = (Json 401 False ''Unauthorized. Please sign in.'', s, [])"
    and "part_000 e (PostRules r) s = (Json 401 False ''Unauthorized. Please sign in.'', s, [])"
    and "part_000 e (PostChangePassword c n) s =
           (Json 401 False ''Unauthorized. Please sign in.'', s, [])"
  using assms
  by (simp_all add: part_000_def parsed_def body_parser_def json_limit_def gated_def
      isAuthenticated_def startsWith_def)

text \<open>
  C1. Claim: the three mutating endpoints and the admin page require an active session; a
  \<open>POST /api/addresses\<close> without one is answered with an authorization error and leaves
  the stored document unchanged.
  In part_000 the static file middleware stands before the gated route for
  \<open>/admin.html\<close> and serves \<open>public/admin.html\<close> to a request without a session; the
  gate is never reached. In \<open>src/server.js\<close> no route is gated: a
  \<open>POST /api/addresses\<close> without a session replaces the stored list.
\<close>

theorem C1_served_without_a_session:
  "\<not> session_user started \<and>
   part_000 site (Get ''/admin.html'') started = (SendFile ''/admin.html'', started, []) \<and>
   \<not> session_user (holding False [main_st]) \<and>
   server_js site (PostAddresses (Array [])) (holding False [main_st]) =
     (Json 200 True ''Addresses updated successfully.'', holding False [], [DbWrite])"
  by (simp add: part_000_def server_js_def express_static_def site_def started_def holding_def
      post_addresses_def db_write_def parsed_def body_parser_def json_limit_def)




text \<open>
  The sign-in handler of part_000: the session flag is set exactly when the user name is
  the configured one and the password verifies; otherwise the answer is 401 and the state
  is as it was; the hash is compared only when the user name matches.
\<close>

lemma signin_part_000:
  "signin Part_000 adm u p s =
     (if adm = Some u \<and> bcrypt_compare p (adminPassword (db_data s))
      then (Redirect ''/admin.html'', s\<lparr>session_user := True\<rparr>, [BcryptCompare p])
      else (Send 401 ''Authentication Failed. <a href=\"/signin.html\">Try again</a>'', s,
            if adm = Some u then [BcryptCompare p] else []))"
  by (simp add: signin_def)

text \<open>
  C10. Claim: sign-in sets the session flag exactly when the user name is the configured
  one and the password verifies; a failed sign-in leaves the session as it was and is
  answered with 401; the hash is compared only when the user name matches.
  The handler of \<open>src/server.js\<close> has no line that sets the flag: the right user name
  and password are answered with the redirect to the admin page, and the session is as it
  was, not signed in.
\<close>

theorem C10_server_js_signs_in_without_a_session:
  "bcrypt_compare ''password123'' (adminPassword (db_data started)) \<and>
   signin Server_js (Some ''admin'') ''admin'' ''password123'' started =
     (Redirect ''/admin.html'', started, [BcryptCompare ''password123'']) \<and>
   \<not> session_user started"
  by (simp add: signin_def started_def default_doc_def bcrypt_hash_def)

section \<open>The admin client\<close>

text \<open>
  The loop of \<open>handleEdit\<close> ends with a text that no longer ends with the suffix,
  whatever the case of its letters, and it strips a suffix that stands twice.
\<close>

lemma strip_suffix_done: "\<not> endsWith (toLowerCase (strip_suffix s)) locationSuffix"
proof (induction s rule: strip_suffix.induct)
  case (1 streetPart)
  show ?case
  proof (cases "endsWith (toLowerCase streetPart) locationSuffix")
    case True
    with "1.IH" show ?thesis by (subst strip_suffix.simps) simp
  next
    case False
    then show ?thesis by (subst strip_suffix.simps) simp
  qed
qed

lemma strip_suffix_duplicated:
  "strip_suffix ''12 Main St ardlethan nsw 2665 Ardlethan NSW 2665'' = ''12 Main St''"
  by code_simp

text \<open>
  What the Save button does to the entry: the new text is the trimmed input, a space and
  the suffix; the coordinates are cleared when that text is not the old one, and kept when
  it is.
\<close>

lemma save_edit_coordinates:
  assumes "index < length cur"
  shows "(case save_edit index v w cur of
            None \<Rightarrow> False
          | Some out \<Rightarrow>
              length out = length cur \<and>
              atext (out ! index) = trim v @ '' '' @ locationSuffix \<and>
              (if atext (out ! index) \<noteq> atext (cur ! index)
               then lat (out ! index) = None \<and> lon (out ! index) = None
               else lat (out ! index) = lat (cur ! index) \<and> lon (out ! index) = lon (cur ! index)))"
  using assms by (simp add: save_edit_def Let_def)

text \<open>
  C5. Claim: Edit strips the location suffix from the text, Save appends it again; the
  coordinates are cleared when the resulting text differs from the old one, and kept when
  the admin saves the same street part again.
  The suffix of the edit row starts with a space and Save puts another space before it, so
  the text it builds has two spaces where the text that Add built has one. An address made
  by Add and geocoded, opened with Edit and saved untouched, gets a text that differs from
  its old one and loses its coordinates.
\<close>

theorem C5_saving_an_added_address_untouched_clears_its_coordinates:
  "add_address ''12 Main St'' [] [] = [main_st] \<and>
   handleEdit 0 [main_st\<lparr>lat := Some (-34.33), lon := Some 146.9\<rparr>] = Some (''12 Main St'', []) \<and>
   save_edit 0 ''12 Main St'' [] [main_st\<lparr>lat := Some (-34.33), lon := Some 146.9\<rparr>] =
     Some [\<lparr>atext = ''12 Main St  ardlethan nsw 2665'', lat = None, lon = None,
            instructions = None\<rparr>]"
  by (simp add: add_address_def handleEdit_def save_edit_def main_st_def locationSuffix_def
      trim_def is_space_def truthy_str_def endsWith_def toLowerCase_def toLowerCase_char_def)

end
